theory Spec2Isabelle
  imports Main "HOL-Library.AList"
begin

section \<open>The account ledger of TempaGyeltshen\_02240134\_A3\_PA.py\<close>

text \<open>
  The development embeds the core of the banking program: the class \<open>Account\<close> with its
  four balance-changing methods, and the registry \<open>BankCore\<close> with authentication and
  the load/save codec of \<open>data.txt\<close>.

  Conventions of the embedding.
  \<^item> An exception is a value of the type \<open>error\<close>; a method returns a pair of its outcome
    (\<open>Inl e\<close> when it raises \<open>e\<close>, \<open>Inr ()\<close> when it returns) and the object as the call
    leaves it. The state is returned in both cases, so that "a failing call changes
    nothing" is a statement to be proved and not a property of the result type.
  \<^item> Amounts and balances range over an arbitrary linearly ordered ring
    (\<open>linordered_idom\<close>); the methods use nothing of it but \<open>+\<close>, \<open>-\<close>, the comparisons
    and \<open>0\<close>. Python's unbounded \<open>int\<close> is such a ring, and so are the rationals and the
    reals. The arithmetic is exact: the rounding of binary floating point, which Python
    applies when a balance or an amount is a \<open>float\<close>, is not part of the model.
  \<^item> A Python \<open>str\<close> is a \<open>string\<close>, a list of characters with code points below 256.
\<close>

subsection \<open>Exceptions\<close>

text \<open>
  \<open>InputError\<close> and \<open>FundTransferError\<close> are the program's two exception classes, each
  carrying the message it is raised with. \<open>ValueError\<close> is Python's own, raised by the
  loader on a line that does not unpack into four fields or whose balance does not parse.
\<close>

datatype error = InputError string | FundTransferError string | ValueError

subsection \<open>Accounts\<close>

text \<open>
  The fields of \<open>Account.__init__\<close>: \<open>self.num\<close>, \<open>self.pin\<close>, \<open>self.type\<close> (here
  \<open>acc_type\<close>, after the constructor's parameter) and \<open>self.balance\<close>.
\<close>

record 'a account =
  num :: string
  pin :: string
  acc_type :: string
  balance :: 'a

definition Account :: "string \<Rightarrow> string \<Rightarrow> string \<Rightarrow> 'a \<Rightarrow> 'a account" where
  "Account number p t amount = \<lparr>num = number, pin = p, acc_type = t, balance = amount\<rparr>"

text \<open>
  The subclasses \<open>Personal\<close> and \<open>Business\<close> add no field and no method; they fix the
  type tag.
\<close>

definition Personal :: "string \<Rightarrow> string \<Rightarrow> 'a \<Rightarrow> 'a account" where
  "Personal number p bal = Account number p ''personal'' bal"

definition Business :: "string \<Rightarrow> string \<Rightarrow> 'a \<Rightarrow> 'a account" where
  "Business number p bal = Account number p ''business'' bal"

type_synonym 'a outcome = "(error + unit) \<times> 'a"

text \<open>\<open>Account.deposit\<close>: rejects an amount that is not positive, else adds it.\<close>

definition deposit ::
  "'a::linordered_idom account \<Rightarrow> 'a \<Rightarrow> 'a account outcome" where
  "deposit self amount =
     (if amount \<le> 0 then (Inl (InputError ''Amount must be more than zero.''), self)
      else (Inr (), self\<lparr>balance := balance self + amount\<rparr>))"

text \<open>\<open>Account.withdraw\<close>: rejects an amount above the balance, else subtracts it.\<close>

definition withdraw ::
  "'a::linordered_idom account \<Rightarrow> 'a \<Rightarrow> 'a account outcome" where
  "withdraw self amount =
     (if amount > balance self then (Inl (InputError ''Not enough balance.''), self)
      else (Inr (), self\<lparr>balance := balance self - amount\<rparr>))"

subsection \<open>Phone numbers\<close>

text \<open>
  \<open>str.isdigit\<close> on one character, for the code points below 256: the decimal digits
  \<open>0\<close> to \<open>9\<close>, and the superscript digits U+00B2, U+00B3 and U+00B9, which Python
  counts as digits too.
\<close>

definition char_isdigit :: "char \<Rightarrow> bool" where
  "char_isdigit c =
     (let n = (of_char c :: nat) in (48 \<le> n \<and> n \<le> 57) \<or> n = 178 \<or> n = 179 \<or> n = 185)"

text \<open>\<open>str.isdigit\<close>: at least one character, and every character a digit.\<close>

definition isdigit :: "string \<Rightarrow> bool" where
  "isdigit s = (s \<noteq> [] \<and> list_all char_isdigit s)"

text \<open>
  \<open>Account.recharge\<close>: the format test on the phone number comes first, the balance
  test second; then the amount is subtracted.
\<close>

definition recharge ::
  "'a::linordered_idom account \<Rightarrow> string \<Rightarrow> 'a \<Rightarrow> 'a account outcome" where
  "recharge self number amount =
     (if \<not> isdigit number \<or> length number \<noteq> 10
      then (Inl (InputError ''Phone number must be 10 digits.''), self)
      else if amount > balance self
      then (Inl (InputError ''Not enough balance for top-up.''), self)
      else (Inr (), self\<lparr>balance := balance self - amount\<rparr>))"

subsection \<open>Objects and references\<close>

text \<open>
  \<open>transfer\<close> changes two objects, and nothing in the program keeps the receiver from
  being the sender. Accounts therefore live in a heap, addressed by references; a
  reference is always valid, as in Python. \<open>call r m h\<close> runs the method \<open>m\<close> on the
  object at \<open>r\<close> and stores the object as the method leaves it.
\<close>

type_synonym 'a heap = "nat \<Rightarrow> 'a account"

definition call ::
  "nat \<Rightarrow> ('a account \<Rightarrow> 'a account outcome) \<Rightarrow> 'a heap \<Rightarrow> 'a heap outcome" where
  "call r m h = (case m (h r) of (res, a) \<Rightarrow> (res, h(r := a)))"

text \<open>
  \<open>Account.transfer\<close>: the test of its own, then \<open>self.withdraw(amount)\<close>, then
  \<open>receiver.deposit(amount)\<close>. An exception of either call propagates, and the heap is
  left as it is at that point: the method has no handler and undoes nothing.
\<close>

definition transfer ::
  "nat \<Rightarrow> 'a::linordered_idom \<Rightarrow> nat \<Rightarrow> 'a heap \<Rightarrow> 'a heap outcome" where
  "transfer self amount receiver h =
     (if amount > balance (h self)
      then (Inl (FundTransferError ''Not enough funds to send.''), h)
      else (case call self (\<lambda>a. withdraw a amount) h of
              (Inl e, h1) \<Rightarrow> (Inl e, h1)
            | (Inr u, h1) \<Rightarrow> call receiver (\<lambda>a. deposit a amount) h1))"

subsection \<open>Sequences of calls\<close>




subsection \<open>The registry\<close>

text \<open>
  \<open>BankCore.users\<close> is a Python \<open>dict\<close> from account numbers to accounts. A \<open>dict\<close> keeps
  its keys in the order of their first insertion, and \<open>_save_data\<close> writes the accounts in
  that order, so the table is an association list; \<open>map_of\<close> is the lookup
  \<open>users.get(k)\<close>, and \<open>AList.update k v\<close> is the assignment \<open>users[k] = v\<close> (a key already
  present keeps its place, a new key goes to the end).
\<close>

type_synonym 'a users = "(string \<times> 'a account) list"

text \<open>
  \<open>BankCore.authenticate\<close>. The test \<open>if acc and acc.pin == pin\<close> first asks whether \<open>acc\<close>
  is truthy: \<open>None\<close> (the key is absent) is not, and an \<open>Account\<close> object always is, since
  the class defines neither \<open>__bool__\<close> nor \<open>__len__\<close>.
\<close>

definition authenticate :: "'a users \<Rightarrow> string \<Rightarrow> string \<Rightarrow> error + 'a account" where
  "authenticate users acc_num p =
     (case map_of users acc_num of
        None \<Rightarrow> Inl (InputError ''Incorrect login details.'')
      | Some acc \<Rightarrow>
          if pin acc = p then Inr acc else Inl (InputError ''Incorrect login details.''))"

subsection \<open>Strings of the store\<close>

text \<open>
  \<open>str.isspace\<close> on one character, for the code points below 256: tab to carriage
  return, the separators U+001C to U+001F, the space, U+0085 and U+00A0. These are the
  characters \<open>str.strip()\<close> removes.
\<close>

definition isspace :: "char \<Rightarrow> bool" where
  "isspace c =
     (let n = (of_char c :: nat)
      in (9 \<le> n \<and> n \<le> 13) \<or> (28 \<le> n \<and> n \<le> 32) \<or> n = 133 \<or> n = 160)"

text \<open>\<open>s.strip()\<close>: the whitespace at both ends removed.\<close>

definition strip :: "string \<Rightarrow> string" where
  "strip s = rev (dropWhile isspace (rev (dropWhile isspace s)))"

text \<open>
  \<open>s.split(sep)\<close> for a separator of one character: the fields between the separators,
  empty fields included; the empty string has one field, itself empty.
\<close>

fun split :: "char \<Rightarrow> string \<Rightarrow> string list" where
  "split sep [] = [[]]"
| "split sep (c # cs) =
     (if c = sep then [] # split sep cs
      else (case split sep cs of [] \<Rightarrow> [[c]] | f # fs \<Rightarrow> (c # f) # fs))"

text \<open>
  The file is opened in text mode with the default \<open>newline=None\<close>: on reading, a
  carriage return, alone or followed by a line feed, arrives as one line feed.
\<close>

fun universal_newlines :: "string \<Rightarrow> string" where
  "universal_newlines [] = []"
| "universal_newlines (c # cs) =
     (if c = CHR 0x0D
      then CHR 0x0A #
        (case cs of [] \<Rightarrow> []
         | d # ds \<Rightarrow> if d = CHR 0x0A then universal_newlines ds else universal_newlines cs)
      else c # universal_newlines cs)"

text \<open>
  \<open>for line in file\<close>: the text cut after every line feed, each line keeping its line
  feed; a last line without one is a line too.
\<close>

fun file_lines :: "string \<Rightarrow> string list" where
  "file_lines [] = []"
| "file_lines (c # cs) =
     (if c = CHR 0x0A then [c] # file_lines cs
      else (case file_lines cs of [] \<Rightarrow> [[c]] | l # ls \<Rightarrow> (c # l) # ls))"

subsection \<open>Loading and saving\<close>

text \<open>
  Two functions of Python itself are parameters of the codec: \<open>str_of\<close>, the text an
  f-string gives a balance (\<open>str(balance)\<close>), and \<open>float_of\<close>, the conversion \<open>float(bal)\<close>,
  which is \<open>None\<close> where Python raises \<open>ValueError\<close>.

  One pass of the loop of \<open>_load_data\<close>: the line is stripped and split at the commas;
  the unpacking into four names raises \<open>ValueError\<close> unless there are exactly four
  fields; the class is \<open>Personal\<close> for the token \<open>personal\<close> and \<open>Business\<close> for any other.
\<close>

definition load_line ::
  "(string \<Rightarrow> 'a option) \<Rightarrow> 'a users \<Rightarrow> string \<Rightarrow> error + 'a users" where
  "load_line float_of users line =
     (case split (CHR '','') (strip line) of
        [acc, pwd, typ, bal] \<Rightarrow>
          (case float_of bal of
             None \<Rightarrow> Inl ValueError
           | Some b \<Rightarrow>
               Inr (AList.update acc
                      ((if typ = ''personal'' then Personal else Business) acc pwd b) users))
      | _ \<Rightarrow> Inl ValueError)"

fun load_lines ::
  "(string \<Rightarrow> 'a option) \<Rightarrow> 'a users \<Rightarrow> string list \<Rightarrow> error + 'a users" where
  "load_lines float_of users [] = Inr users"
| "load_lines float_of users (line # rest) =
     (case load_line float_of users line of
        Inl e \<Rightarrow> Inl e
      | Inr users' \<Rightarrow> load_lines float_of users' rest)"

text \<open>
  \<open>BankCore._load_data\<close>. The file is \<open>None\<close> when \<open>data.txt\<close> does not exist, and the
  table is then left as it is. \<open>BankCore.__init__\<close> calls it on the empty table; an
  exception of the loop leaves the constructor, so no registry comes to exist and the
  result is the exception alone.
\<close>

definition load_data ::
  "(string \<Rightarrow> 'a option) \<Rightarrow> 'a users \<Rightarrow> string option \<Rightarrow> error + 'a users" where
  "load_data float_of users file =
     (case file of
        None \<Rightarrow> Inr users
      | Some content \<Rightarrow> load_lines float_of users (file_lines (universal_newlines content)))"

text \<open>
  \<open>BankCore._save_data\<close>: the new content of the file, one line for each value of the
  table, in the table's order.
\<close>

definition save_line :: "('a \<Rightarrow> string) \<Rightarrow> 'a account \<Rightarrow> string" where
  "save_line str_of acc =
     num acc @ '','' @ pin acc @ '','' @ acc_type acc @ '','' @ str_of (balance acc) @ [CHR 0x0A]"

definition save_data :: "('a \<Rightarrow> string) \<Rightarrow> 'a users \<Rightarrow> string" where
  "save_data str_of users = concat (map (\<lambda>(k, acc). save_line str_of acc) users)"

subsection \<open>Well-formed records\<close>

text \<open>
  The records the round trip is about. A text is \<open>plain\<close> when it holds no comma and no
  whitespace. An entry of the table is a valid record when its key is the account's own
  number, the number and the pin consist of digits, the type tag is \<open>personal\<close> or
  \<open>business\<close>, and the text of the balance is plain and converts back to the balance.
\<close>

definition plain :: "string \<Rightarrow> bool" where
  "plain s = list_all (\<lambda>c. c \<noteq> CHR '','' \<and> \<not> isspace c) s"

definition valid_record ::
  "('a \<Rightarrow> string) \<Rightarrow> (string \<Rightarrow> 'a option) \<Rightarrow> string \<times> 'a account \<Rightarrow> bool" where
  "valid_record str_of float_of entry =
     (case entry of (k, acc) \<Rightarrow>
        k = num acc
        \<and> list_all char_isdigit (num acc)
        \<and> list_all char_isdigit (pin acc)
        \<and> (acc_type acc = ''personal'' \<or> acc_type acc = ''business'')
        \<and> plain (str_of (balance acc))
        \<and> float_of (str_of (balance acc)) = Some (balance acc))"

text \<open>The line \<open>_save_data\<close> writes for an account, without its line feed.\<close>

definition record_text :: "('a \<Rightarrow> string) \<Rightarrow> 'a account \<Rightarrow> string" where
  "record_text str_of acc =
     num acc @ '','' @ pin acc @ '','' @ acc_type acc @ '','' @ str_of (balance acc)"

subsection \<open>Whole-number balances\<close>

text \<open>
  An instance of the two parameters, for the examples: \<open>str_int\<close> is Python's \<open>str\<close> on an
  \<open>int\<close>, and \<open>int_of_str\<close> reads the decimal text of an integer. On such a text it agrees
  with \<open>float\<close>; elsewhere it is \<open>None\<close>, also where \<open>float\<close> would accept the text.
\<close>

fun str_nat :: "nat \<Rightarrow> string" where
  "str_nat n =
     (if n < 10 then [char_of (48 + n)] else str_nat (n div 10) @ [char_of (48 + n mod 10)])"

declare str_nat.simps [simp del]

definition str_int :: "int \<Rightarrow> string" where
  "str_int i = (if i < 0 then CHR ''-'' # str_nat (nat (- i)) else str_nat (nat i))"

fun nat_of_digits :: "nat \<Rightarrow> string \<Rightarrow> nat option" where
  "nat_of_digits n [] = Some n"
| "nat_of_digits n (c # cs) =
     (let d = (of_char c :: nat)
      in if 48 \<le> d \<and> d \<le> 57 then nat_of_digits (10 * n + (d - 48)) cs else None)"

definition int_of_str :: "string \<Rightarrow> int option" where
  "int_of_str s =
     (case s of
        [] \<Rightarrow> None
      | c # cs \<Rightarrow>
          if c = CHR ''-''
          then (if cs = [] then None else map_option (\<lambda>n. - int n) (nat_of_digits 0 cs))
          else map_option int (nat_of_digits 0 s))"

subsection \<open>The accounts of the test suite\<close>

text \<open>
  The two accounts of the test suite's \<open>setUp\<close>: as objects at the references 0 and 1,
  and as the two entries \<open>setUp\<close> puts into the table.
\<close>

definition acc1 :: "int account" where
  "acc1 = Personal ''11111'' ''1111'' 1000"

definition acc2 :: "int account" where
  "acc2 = Business ''22222'' ''2222'' 500"

definition test_heap :: "int heap" where
  "test_heap = (\<lambda>r. if r = 0 then acc1 else acc2)"

definition test_users :: "int users" where
  "test_users = [(''11111'', acc1), (''22222'', acc2)]"

section \<open>Withdrawal\<close>

text \<open>
  C3. For every account and every amount, \<open>withdraw\<close> raises the insufficient-funds
  error (\<open>InputError\<close> with the message "Not enough balance.") if and only if the amount
  exceeds the balance at call time; when it raises, the account is unchanged, and when it
  returns, the balance has decreased by exactly the amount and nothing else has changed.
\<close>

theorem withdraw_iff_insufficient:
  "(fst (withdraw self amount) = Inl (InputError ''Not enough balance.'')) = (amount > balance self)
   \<and> (if amount > balance self
      then withdraw self amount = (Inl (InputError ''Not enough balance.''), self)
      else withdraw self amount = (Inr (), self\<lparr>balance := balance self - amount\<rparr>))"
  by (simp add: withdraw_def)

section \<open>Calls on one object\<close>

lemma call_fst: "fst (call r m h) = fst (m (h r))"
  by (simp add: call_def split: prod.splits)



lemmas fixture_defs =
  test_heap_def acc1_def acc2_def Personal_def Business_def Account_def

section \<open>Failing calls\<close>

text \<open>
  The three methods that touch one object leave it as it was whenever they raise, and
  so does \<open>transfer\<close> when its own test raises.
\<close>

lemma deposit_raises_unchanged: "fst (deposit self amount) = Inl e \<Longrightarrow> snd (deposit self amount) = self"
  by (simp add: deposit_def split: if_splits)

lemma withdraw_raises_unchanged: "fst (withdraw self amount) = Inl e \<Longrightarrow> snd (withdraw self amount) = self"
  by (simp add: withdraw_def split: if_splits)

lemma recharge_raises_unchanged:
  "fst (recharge self number amount) = Inl e \<Longrightarrow> snd (recharge self number amount) = self"
  by (auto simp add: recharge_def split: if_splits)

lemma transfer_insufficient_unchanged:
  "amount > balance (h self) \<Longrightarrow>
   transfer self amount receiver h = (Inl (FundTransferError ''Not enough funds to send.''), h)"
  by (simp add: transfer_def)

text \<open>
  A transfer of a positive amount that passes the test cannot raise later, so for positive
  amounts a raising \<open>transfer\<close> has changed nothing.
\<close>

lemma transfer_positive_raises_unchanged:
  "0 < amount \<Longrightarrow> fst (transfer self amount receiver h) = Inl e \<Longrightarrow>
   snd (transfer self amount receiver h) = h"
  by (auto simp add: transfer_def call_def withdraw_def deposit_def split: if_splits)

text \<open>
  C1. The claim that every raising call of \<open>deposit\<close>, \<open>withdraw\<close>, \<open>transfer\<close> or
  \<open>recharge\<close> leaves every balance as it was does not hold of \<open>transfer\<close>. On the accounts
  of the test suite (1000 and 500), \<open>acc1.transfer(-200, acc2)\<close> passes the test
  \<open>amount > self.balance\<close>, withdraws \<open>-200\<close> from the sender, whose balance becomes 1200,
  and then raises \<open>InputError\<close> from \<open>receiver.deposit(-200)\<close>: the call fails and the
  sender's balance has changed, while the receiver's has not.
\<close>

theorem transfer_negative_amount_partial:
  "fst (transfer 0 (- 200) 1 test_heap) = Inl (InputError ''Amount must be more than zero.'')
   \<and> balance (test_heap 0) = 1000
   \<and> balance (snd (transfer 0 (- 200) 1 test_heap) 0) = 1200
   \<and> snd (transfer 0 (- 200) 1 test_heap) 1 = test_heap 1"
  by (simp add: transfer_def call_def withdraw_def deposit_def fixture_defs)

section \<open>The balance never becomes negative\<close>









section \<open>Transfer\<close>



section \<open>Recharge\<close>

text \<open>
  C6. \<open>recharge\<close> raises the phone-number error whenever the number is not exactly ten
  characters that are all digits, whatever the amount and the balance, and leaves the
  account unchanged. When the number is well formed, it raises the insufficient-funds
  error exactly when the amount exceeds the balance, again changing nothing, and
  otherwise returns with the balance decreased by exactly the amount.
\<close>

theorem recharge_checks_format_first:
  "(\<not> (length number = 10 \<and> list_all char_isdigit number) \<longrightarrow>
      recharge self number amount
        = (Inl (InputError ''Phone number must be 10 digits.''), self))
   \<and> (length number = 10 \<and> list_all char_isdigit number \<longrightarrow>
        (fst (recharge self number amount) = Inl (InputError ''Not enough balance for top-up.''))
          = (amount > balance self)
      \<and> (if amount > balance self
         then recharge self number amount
                = (Inl (InputError ''Not enough balance for top-up.''), self)
         else recharge self number amount
                = (Inr (), self\<lparr>balance := balance self - amount\<rparr>)))"
  by (auto simp add: recharge_def isdigit_def)

theorem recharge_checks_format_first_witness:
  "\<not> (length ''123'' = 10 \<and> list_all char_isdigit ''123'')
   \<and> recharge acc1 ''123'' 50 = (Inl (InputError ''Phone number must be 10 digits.''), acc1)
   \<and> length ''1234567890'' = 10 \<and> list_all char_isdigit ''1234567890''
   \<and> recharge acc1 ''1234567890'' 100 = (Inr (), acc1\<lparr>balance := 900\<rparr>)
   \<and> recharge acc2 ''1234567890'' 10000
       = (Inl (InputError ''Not enough balance for top-up.''), acc2)"
proof -
  have bad: "\<not> (length ''123'' = 10 \<and> list_all char_isdigit ''123'')"
    by simp
  have good: "length ''1234567890'' = 10 \<and> list_all char_isdigit ''1234567890''"
    by (simp add: char_isdigit_def)
  have balances: "balance acc1 = 1000" "balance acc2 = 500"
    by (simp_all add: fixture_defs)
  show ?thesis
    using recharge_checks_format_first [where number = "''123''" and self = acc1 and amount = 50]
      recharge_checks_format_first
        [where number = "''1234567890''" and self = acc1 and amount = 100]
      recharge_checks_format_first
        [where number = "''1234567890''" and self = acc2 and amount = 10000]
      bad good balances
    by simp
qed

section \<open>Deposit, then withdraw\<close>




section \<open>Amounts that are not positive\<close>




section \<open>Authentication\<close>

text \<open>
  C5. \<open>authenticate\<close> returns an account exactly when the number is a key of the table
  and the pin stored under it equals the pin supplied, and the account it returns is the
  one stored under the number. In every other case, an unknown number or a known number
  with another pin, it raises one and the same error, \<open>InputError\<close> with the message
  "Incorrect login details.", so the result does not tell the two cases apart.
\<close>

theorem authenticate_iff:
  "(authenticate users number p = Inr acc) = (map_of users number = Some acc \<and> pin acc = p)
   \<and> ((\<nexists>acc. map_of users number = Some acc \<and> pin acc = p) \<longrightarrow>
        authenticate users number p = Inl (InputError ''Incorrect login details.''))"
  by (auto simp add: authenticate_def split: option.splits)

theorem authenticate_iff_witness:
  "map_of test_users ''22222'' = Some acc2 \<and> pin acc2 = ''2222''
   \<and> authenticate test_users ''22222'' ''2222'' = Inr acc2
   \<and> pin acc2 \<noteq> ''0000''
   \<and> authenticate test_users ''22222'' ''0000'' = Inl (InputError ''Incorrect login details.'')
   \<and> map_of test_users ''99999'' = None
   \<and> authenticate test_users ''99999'' ''2222'' = Inl (InputError ''Incorrect login details.'')"
proof -
  have stored: "map_of test_users ''22222'' = Some acc2" "map_of test_users ''99999'' = None"
    by (simp_all add: test_users_def)
  have pins: "pin acc2 = ''2222''" "pin acc2 \<noteq> ''0000''"
    by (simp_all add: fixture_defs)
  show ?thesis
    using authenticate_iff
        [where users = test_users and number = "''22222''" and p = "''2222''" and acc = acc2]
      authenticate_iff [where users = test_users and number = "''22222''" and p = "''0000''"]
      authenticate_iff [where users = test_users and number = "''99999''" and p = "''2222''"]
      stored pins
    by simp
qed

section \<open>The store\<close>

subsection \<open>Stripping, splitting and cutting into lines\<close>

lemma isspace_newlines: "isspace (CHR 0x0A)" "isspace (CHR 0x0D)"
  by (simp_all add: isspace_def)

lemma char_isdigit_plain: "char_isdigit c \<Longrightarrow> c \<noteq> CHR '','' \<and> \<not> isspace c"
  by (auto simp add: char_isdigit_def isspace_def Let_def)

lemma digits_plain: "list_all char_isdigit s \<Longrightarrow> plain s"
  by (induction s) (simp_all add: plain_def char_isdigit_plain)

lemma plain_append: "plain (s @ t) = (plain s \<and> plain t)"
  by (simp add: plain_def)

lemma plain_tokens: "plain ''personal''" "plain ''business''"
  by (simp_all add: plain_def isspace_def)

lemma plain_no_comma: "plain s \<Longrightarrow> CHR '','' \<notin> set s"
  by (auto simp add: plain_def list_all_iff)

lemma plain_no_space: "plain s \<Longrightarrow> c \<in> set s \<Longrightarrow> \<not> isspace c"
  by (auto simp add: plain_def list_all_iff)

lemma no_space_no_newline:
  assumes "\<forall>c\<in>set s. \<not> isspace c"
  shows "CHR 0x0A \<notin> set s" and "CHR 0x0D \<notin> set s"
  using assms isspace_newlines by auto

lemma dropWhile_no_space: "\<forall>c\<in>set s. \<not> isspace c \<Longrightarrow> dropWhile isspace s = s"
  by (cases s) simp_all

lemma strip_line:
  assumes "\<forall>c\<in>set s. \<not> isspace c"
  shows "strip (s @ [CHR 0x0A]) = s"
proof (cases s)
  case Nil
  then show ?thesis by (simp add: strip_def isspace_newlines)
next
  case (Cons c cs)
  with assms have "dropWhile isspace (s @ [CHR 0x0A]) = s @ [CHR 0x0A]"
    by simp
  moreover from assms have "dropWhile isspace (rev s) = rev s"
    by (intro dropWhile_no_space) simp
  ultimately show ?thesis
    by (simp add: strip_def isspace_newlines)
qed

lemma split_field: "sep \<notin> set a \<Longrightarrow> split sep (a @ sep # rest) = a # split sep rest"
  by (induction a) auto

lemma split_last: "sep \<notin> set a \<Longrightarrow> split sep a = [a]"
  by (induction a) auto

lemma file_lines_line:
  "CHR 0x0A \<notin> set l \<Longrightarrow> file_lines (l @ CHR 0x0A # rest) = (l @ [CHR 0x0A]) # file_lines rest"
  by (induction l) auto

lemma universal_newlines_id: "CHR 0x0D \<notin> set s \<Longrightarrow> universal_newlines s = s"
  by (induction s) auto

lemma save_line_text: "save_line str_of acc = record_text str_of acc @ [CHR 0x0A]"
  by (simp add: save_line_def record_text_def)

lemma valid_fields:
  assumes "valid_record str_of float_of (k, acc)"
  shows "plain (num acc)" "plain (pin acc)" "plain (acc_type acc)"
    "plain (str_of (balance acc))"
  using assms by (auto simp add: valid_record_def digits_plain plain_tokens)

lemma record_text_no_space:
  assumes "valid_record str_of float_of (k, acc)"
  shows "\<forall>c\<in>set (record_text str_of acc). \<not> isspace c"
  using valid_fields [OF assms]
  by (auto simp add: record_text_def isspace_def dest: plain_no_space)

lemma split_record_text:
  assumes "valid_record str_of float_of (k, acc)"
  shows "split (CHR '','') (record_text str_of acc)
           = [num acc, pin acc, acc_type acc, str_of (balance acc)]"
proof -
  note f = valid_fields [OF assms, THEN plain_no_comma]
  show ?thesis
    unfolding record_text_def
    by (simp add: split_field [OF f(1)] split_field [OF f(2)] split_field [OF f(3)]
        split_last [OF f(4)])
qed

lemma Personal_Business_rebuild:
  assumes "acc_type acc = ''personal'' \<or> acc_type acc = ''business''"
  shows "(if acc_type acc = ''personal'' then Personal else Business)
           (num acc) (pin acc) (balance acc) = acc"
  using assms by (auto simp add: Personal_def Business_def Account_def)

lemma load_line_save_line:
  assumes "valid_record str_of float_of (k, acc)"
  shows "load_line float_of users (save_line str_of acc) = Inr (AList.update k acc users)"
proof -
  have stripped: "strip (save_line str_of acc) = record_text str_of acc"
    unfolding save_line_text by (rule strip_line [OF record_text_no_space [OF assms]])
  have parsed: "float_of (str_of (balance acc)) = Some (balance acc)"
    and key: "k = num acc"
    and tag: "acc_type acc = ''personal'' \<or> acc_type acc = ''business''"
    using assms by (simp_all add: valid_record_def)
  show ?thesis
    by (simp add: load_line_def stripped split_record_text [OF assms] parsed key
        Personal_Business_rebuild [OF tag])
qed

lemma update_new_key: "k \<notin> fst ` set al \<Longrightarrow> AList.update k v al = al @ [(k, v)]"
  by (induction al) auto

lemma load_lines_saved:
  assumes "list_all (valid_record str_of float_of) us"
    and "distinct (map fst (acc @ us))"
  shows "load_lines float_of acc (map (\<lambda>(k, a). save_line str_of a) us) = Inr (acc @ us)"
  using assms
proof (induction us arbitrary: acc)
  case Nil
  then show ?case by simp
next
  case (Cons e us)
  obtain k a where e: "e = (k, a)"
    by (cases e)
  from Cons.prems e have valid: "valid_record str_of float_of (k, a)"
    and rest: "list_all (valid_record str_of float_of) us"
    by simp_all
  from Cons.prems(2) e have fresh: "k \<notin> fst ` set acc"
    and distinct: "distinct (map fst ((acc @ [(k, a)]) @ us))"
    by auto
  have "load_lines float_of (acc @ [(k, a)]) (map (\<lambda>(k, a). save_line str_of a) us)
          = Inr ((acc @ [(k, a)]) @ us)"
    by (rule Cons.IH [OF rest distinct])
  then show ?case
    by (simp add: e load_line_save_line [OF valid] update_new_key [OF fresh])
qed

lemma record_text_no_newline:
  assumes "valid_record str_of float_of (k, acc)"
  shows "CHR 0x0A \<notin> set (record_text str_of acc)" "CHR 0x0D \<notin> set (record_text str_of acc)"
  using no_space_no_newline [OF record_text_no_space [OF assms]] by simp_all

lemma file_lines_saved:
  assumes "list_all (valid_record str_of float_of) us"
  shows "file_lines (save_data str_of us) = map (\<lambda>(k, a). save_line str_of a) us"
  using assms
proof (induction us)
  case Nil
  then show ?case by (simp add: save_data_def)
next
  case (Cons e us)
  obtain k a where e: "e = (k, a)"
    by (cases e)
  from Cons.prems e have valid: "valid_record str_of float_of (k, a)"
    and rest: "list_all (valid_record str_of float_of) us"
    by simp_all
  have "save_data str_of (e # us) = record_text str_of a @ CHR 0x0A # save_data str_of us"
    by (simp add: save_data_def e save_line_text)
  with file_lines_line [OF record_text_no_newline(1) [OF valid]] Cons.IH [OF rest]
  show ?case
    by (simp add: e save_line_text)
qed

lemma saved_no_carriage_return:
  assumes "list_all (valid_record str_of float_of) us"
  shows "CHR 0x0D \<notin> set (save_data str_of us)"
  using assms
proof (induction us)
  case Nil
  then show ?case by (simp add: save_data_def)
next
  case (Cons e us)
  obtain k a where e: "e = (k, a)"
    by (cases e)
  from Cons.prems e have valid: "valid_record str_of float_of (k, a)"
    and rest: "list_all (valid_record str_of float_of) us"
    by simp_all
  have "save_data str_of (e # us) = record_text str_of a @ CHR 0x0A # save_data str_of us"
    by (simp add: save_data_def e save_line_text)
  with record_text_no_newline(2) [OF valid] Cons.IH [OF rest]
  show ?case
    by simp
qed

subsection \<open>Saving, then loading\<close>

text \<open>
  C7. For every table of valid records (the key of each entry is the account's own number,
  numbers and pins consist of digits, the type tag is \<open>personal\<close> or \<open>business\<close>, and the text
  of each balance is plain and converts back to the balance), what \<open>_save_data\<close> writes is
  loaded by \<open>_load_data\<close>, starting from the empty table as \<open>BankCore.__init__\<close> does,
  without an error and into the same table: the same numbers, pins, type tags and
  balances, in the same order. The keys of a \<open>dict\<close> are distinct.
\<close>

theorem save_load_roundtrip:
  assumes "distinct (map fst users)"
    and "list_all (valid_record str_of float_of) users"
  shows "load_data float_of [] (Some (save_data str_of users)) = Inr users"
proof -
  have "universal_newlines (save_data str_of users) = save_data str_of users"
    by (rule universal_newlines_id [OF saved_no_carriage_return [OF assms(2)]])
  moreover have
    "load_lines float_of [] (map (\<lambda>(k, a). save_line str_of a) users) = Inr ([] @ users)"
    by (rule load_lines_saved [OF assms(2)]) (simp add: assms(1))
  ultimately show ?thesis
    by (simp add: load_data_def file_lines_saved [OF assms(2)])
qed

theorem save_load_roundtrip_witness:
  "distinct (map fst test_users)
   \<and> list_all (valid_record str_int int_of_str) test_users
   \<and> save_data str_int test_users
       = ''11111,1111,personal,1000\<newline>22222,2222,business,500\<newline>''
   \<and> load_data int_of_str []
        (Some ''11111,1111,personal,1000\<newline>22222,2222,business,500\<newline>'')
       = Inr test_users"
proof -
  have keys: "distinct (map fst test_users)"
    by (simp add: test_users_def)
  have valid: "list_all (valid_record str_int int_of_str) test_users"
    by code_simp
  have saved: "save_data str_int test_users
      = ''11111,1111,personal,1000\<newline>22222,2222,business,500\<newline>''"
    by code_simp
  show ?thesis
    using save_load_roundtrip [OF keys valid] keys valid saved by simp
qed

subsection \<open>The type tag of a loaded record\<close>

text \<open>
  C10. When a line of the store, stripped and split at the commas, has the four fields
  \<open>acc\<close>, \<open>pwd\<close>, \<open>typ\<close> and \<open>bal\<close>, and the balance converts, the loader raises no error
  and stores under \<open>acc\<close> a \<open>Personal\<close> account if \<open>typ\<close> is the token \<open>personal\<close>, and a
  \<open>Business\<close> account for every other token, \<open>business\<close> or not.
\<close>

theorem load_line_kind:
  assumes "split (CHR '','') (strip line) = [acc, pwd, typ, bal]"
    and "float_of bal = Some b"
  shows "load_line float_of users line
           = Inr (AList.update acc
                    (if typ = ''personal'' then Personal acc pwd b else Business acc pwd b)
                    users)
       \<and> acc_type (if typ = ''personal'' then Personal acc pwd b else Business acc pwd b)
           = (if typ = ''personal'' then ''personal'' else ''business'')"
  using assms by (simp add: load_line_def Personal_def Business_def Account_def)

theorem load_line_kind_witness:
  "split (CHR '','') (strip ''33333,3333,premium,250\<newline>'')
     = [''33333'', ''3333'', ''premium'', ''250'']
   \<and> int_of_str ''250'' = Some 250
   \<and> load_line int_of_str [] ''33333,3333,premium,250\<newline>''
       = Inr [(''33333'', Business ''33333'' ''3333'' 250)]
   \<and> split (CHR '','') (strip ''11111,1111,personal,1000\<newline>'')
       = [''11111'', ''1111'', ''personal'', ''1000'']
   \<and> int_of_str ''1000'' = Some 1000
   \<and> load_line int_of_str [] ''11111,1111,personal,1000\<newline>''
       = Inr [(''11111'', Personal ''11111'' ''1111'' 1000)]"
proof -
  have other: "split (CHR '','') (strip ''33333,3333,premium,250\<newline>'')
      = [''33333'', ''3333'', ''premium'', ''250'']"
    by (simp add: strip_def isspace_def)
  have personal: "split (CHR '','') (strip ''11111,1111,personal,1000\<newline>'')
      = [''11111'', ''1111'', ''personal'', ''1000'']"
    by (simp add: strip_def isspace_def)
  have balances: "int_of_str ''250'' = Some 250" "int_of_str ''1000'' = Some 1000"
    by (simp_all add: int_of_str_def)
  show ?thesis
    using load_line_kind [where float_of = int_of_str and users = "[]", OF other balances(1)]
      load_line_kind [where float_of = int_of_str and users = "[]", OF personal balances(2)]
      other personal balances
    by simp
qed

end
